theory Spec2Isabelle
  imports Main "HOL-Library.Char_ord" "HOL-Library.List_Lexorder"
begin

section \<open>Document upload service: data model\<close>

text \<open>
  A shallow embedding of \<^verbatim>\<open>src/server/main.py\<close>. Byte strings and text are lists of
  characters. A Python \<^verbatim>\<open>str\<close> is a sequence of code points; here it is a list of
  8-bit characters, and only the ASCII letters have a lower-case form. No code point
  outside ASCII lowers to one of \<^verbatim>\<open>.\<close>, \<^verbatim>\<open>p\<close>, \<^verbatim>\<open>d\<close>, \<^verbatim>\<open>f\<close>, so the extension test
  is the same on both readings.
\<close>

type_synonym bytes = "char list"
type_synonym path = string

text \<open>
  \<^verbatim>\<open>UploadFile\<close>: the client's file name and the spooled stream \<^verbatim>\<open>file.file\<close>, a byte
  sequence with a read offset. The stream lives in the server's memory; its
  operations are taken to succeed.
\<close>

record upload_file =
  filename :: string
  content :: bytes
  pos :: nat

text \<open>A row of the table \<^verbatim>\<open>documents\<close> (the columns \<^verbatim>\<open>id\<close> and \<^verbatim>\<open>filename\<close> are
  \<open>row_id\<close> and \<open>row_filename\<close>).\<close>

record document_row =
  row_id :: int
  row_filename :: string
  original_name :: string
  filepath :: path
  filesize :: nat
  created_at :: string

text \<open>What a handler raises: \<^verbatim>\<open>HTTPException(status_code, detail)\<close>, or any other
  exception (caught by \<^verbatim>\<open>except Exception\<close> inside a handler; answered with status 500
  by the framework when it leaves one).\<close>

datatype exn = HTTPException nat string | OtherException

fun status_code :: "exn \<Rightarrow> nat" where
  "status_code (HTTPException c d) = c"
| "status_code OtherException = 500"

text \<open>Every call a handler makes to the blob store or to the index, in the order made.\<close>

datatype event =
    BlobOpen path
  | BlobWrite path
  | BlobUnlink path
  | IndexInsert path
  | IndexCommit
  | IndexSelect int
  | IndexSelectAll
  | IndexDelete int

text \<open>
  The two stores: the upload directory (a file per path), the committed rows of the
  table in insertion order with the counter that \<^verbatim>\<open>AUTOINCREMENT\<close> keeps in
  \<^verbatim>\<open>sqlite_sequence\<close>, and the calls made so far.
\<close>

record world =
  files :: "path \<rightharpoonup> bytes"
  rows :: "document_row list"
  seq :: int
  trace :: "event list"

definition MAX_FILE_SIZE :: nat where
  "MAX_FILE_SIZE = 10 * 1024 * 1024"

definition UPLOAD_DIR :: path where
  "UPLOAD_DIR = ''server/uploads''"

section \<open>Strings and streams\<close>

definition lower_char :: "char \<Rightarrow> char" where
  "lower_char c =
     (case map_of (zip ''ABCDEFGHIJKLMNOPQRSTUVWXYZ'' ''abcdefghijklmnopqrstuvwxyz'') c of
        Some l \<Rightarrow> l
      | None \<Rightarrow> c)"

definition lower :: "string \<Rightarrow> string" where
  "lower s = map lower_char s"

text \<open>\<^verbatim>\<open>s.endswith(t)\<close> and \<^verbatim>\<open>s.startswith(t)\<close>.\<close>

definition endswith :: "'a list \<Rightarrow> 'a list \<Rightarrow> bool" where
  "endswith s t \<longleftrightarrow> length t \<le> length s \<and> drop (length s - length t) s = t"

definition startswith :: "'a list \<Rightarrow> 'a list \<Rightarrow> bool" where
  "startswith s t \<longleftrightarrow> take (length t) s = t"

text \<open>\<^verbatim>\<open>seek(0)\<close>, \<^verbatim>\<open>seek(0, 2)\<close>, \<^verbatim>\<open>tell()\<close>, \<^verbatim>\<open>read(n)\<close> and \<^verbatim>\<open>read()\<close> on the stream.\<close>

definition seek_start :: "upload_file \<Rightarrow> upload_file" where
  "seek_start f = f\<lparr>pos := 0\<rparr>"

definition seek_end :: "upload_file \<Rightarrow> upload_file" where
  "seek_end f = f\<lparr>pos := length (content f)\<rparr>"

definition tell :: "upload_file \<Rightarrow> nat" where
  "tell f = pos f"

definition read_n :: "nat \<Rightarrow> upload_file \<Rightarrow> bytes \<times> upload_file" where
  "read_n n f =
     (let chunk = take n (drop (pos f) (content f))
      in (chunk, f\<lparr>pos := pos f + length chunk\<rparr>))"

definition read_all :: "upload_file \<Rightarrow> bytes \<times> upload_file" where
  "read_all f =
     (let chunk = drop (pos f) (content f)
      in (chunk, f\<lparr>pos := pos f + length chunk\<rparr>))"

section \<open>Content validator\<close>

text \<open>
  \<^verbatim>\<open>validate_pdf_file\<close>: the extension test returns early without touching the stream;
  otherwise the stream is rewound, its first 1024 bytes are read, and it is rewound
  again. The result is the verdict and the stream as the validator leaves it. The
  \<^verbatim>\<open>except\<close> branch answers an error of the stream, which this stream never raises.
\<close>

definition validate_pdf_file :: "upload_file \<Rightarrow> bool \<times> upload_file" where
  "validate_pdf_file file =
     (if \<not> endswith (lower (filename file)) ''.pdf'' then (False, file)
      else
        let f1 = seek_start file;
            (header, f2) = read_n 1024 f1;
            f3 = seek_start f2
        in if startswith header ''%PDF'' then (True, f3) else (False, f3))"

section \<open>Unique name generator\<close>

text \<open>\<^verbatim>\<open>str(n)\<close> for a natural number: its decimal digits.\<close>

definition digit_char :: "nat \<Rightarrow> char" where
  "digit_char d = ''0123456789'' ! d"

fun str_nat :: "nat \<Rightarrow> string" where
  "str_nat n = (if n < 10 then [digit_char n] else str_nat (n div 10) @ [digit_char (n mod 10)])"

declare str_nat.simps [simp del]

text \<open>\<^verbatim>\<open>s.rfind(c)\<close>: the index of the last occurrence of \<open>c\<close>, or \<open>-1\<close>.\<close>

fun rfind_from :: "char \<Rightarrow> string \<Rightarrow> int \<Rightarrow> int \<Rightarrow> int" where
  "rfind_from c [] i found = found"
| "rfind_from c (x # xs) i found = rfind_from c xs (i + 1) (if x = c then i else found)"

definition rfind :: "string \<Rightarrow> char \<Rightarrow> int" where
  "rfind s c = rfind_from c s 0 (- 1)"

text \<open>
  \<^verbatim>\<open>os.path.splitext\<close> (POSIX): the extension starts at the last dot of the last path
  component, unless only dots precede it there.
\<close>

definition splitext :: "string \<Rightarrow> string \<times> string" where
  "splitext p =
     (let sepIndex = rfind p (CHR ''/'');
          dotIndex = rfind p (CHR ''.'')
      in if dotIndex > sepIndex \<and>
            list_ex (\<lambda>c. c \<noteq> CHR ''.'')
              (take (nat (dotIndex - sepIndex - 1)) (drop (nat (sepIndex + 1)) p))
         then (take (nat dotIndex) p, drop (nat dotIndex) p)
         else (p, []))"

text \<open>What the generator draws from its environment: \<^verbatim>\<open>int(time.time())\<close>,
  \<^verbatim>\<open>random.randint(1000, 9999)\<close>, and (for the handler) \<^verbatim>\<open>datetime.now().isoformat()\<close>.\<close>

record clock =
  timestamp :: nat
  random_suffix :: nat
  now_iso :: string

definition generate_unique_filename :: "clock \<Rightarrow> string \<Rightarrow> string" where
  "generate_unique_filename env original_filename =
     (let (name, ext) = splitext original_filename
      in str_nat (timestamp env) @ ''-'' @ str_nat (random_suffix env) @ ''-'' @ name @ ext)"

text \<open>\<^verbatim>\<open>str(UPLOAD_DIR / unique_filename)\<close>; the clean-up \<^verbatim>\<open>pathlib\<close> does on separators
  inside the name is not modelled, a path is the key of its file.\<close>

definition path_join :: "path \<Rightarrow> string \<Rightarrow> path" where
  "path_join dir name = dir @ ''/'' @ name"

section \<open>Blob store and metadata index\<close>

text \<open>
  Which calls to the stores raise during one request. \<open>write_fails = Some k\<close>: the
  write raises after \<open>k\<close> bytes have reached the file.
\<close>

record faults =
  open_fails :: bool
  write_fails :: "nat option"
  insert_fails :: bool
  commit_fails :: bool
  select_fails :: bool
  unlink_fails :: bool
  delete_fails :: bool

definition no_faults :: faults where
  "no_faults = \<lparr>open_fails = False, write_fails = None, insert_fails = False,
     commit_fails = False, select_fails = False, unlink_fails = False,
     delete_fails = False\<rparr>"

definition log :: "event \<Rightarrow> world \<Rightarrow> world" where
  "log e w = w\<lparr>trace := trace w @ [e]\<rparr>"

text \<open>\<^verbatim>\<open>aiofiles.open(file_path, 'wb')\<close>: creates the file, or truncates the one there.\<close>

definition blob_open :: "faults \<Rightarrow> path \<Rightarrow> world \<Rightarrow> (exn + unit) \<times> world" where
  "blob_open flt p w =
     (let w1 = log (BlobOpen p) w
      in if open_fails flt then (Inl OtherException, w1)
         else (Inr (), w1\<lparr>files := (files w1)(p \<mapsto> [])\<rparr>))"

definition blob_write :: "faults \<Rightarrow> path \<Rightarrow> bytes \<Rightarrow> world \<Rightarrow> (exn + unit) \<times> world" where
  "blob_write flt p data w =
     (let w1 = log (BlobWrite p) w
      in case write_fails flt of
           Some k \<Rightarrow> (Inl OtherException, w1\<lparr>files := (files w1)(p \<mapsto> take k data)\<rparr>)
         | None \<Rightarrow> (Inr (), w1\<lparr>files := (files w1)(p \<mapsto> data)\<rparr>))"

definition path_exists :: "path \<Rightarrow> world \<Rightarrow> bool" where
  "path_exists p w \<longleftrightarrow> files w p \<noteq> None"

definition blob_unlink :: "faults \<Rightarrow> path \<Rightarrow> world \<Rightarrow> (exn + unit) \<times> world" where
  "blob_unlink flt p w =
     (let w1 = log (BlobUnlink p) w
      in if unlink_fails flt then (Inl OtherException, w1)
         else (Inr (), w1\<lparr>files := (files w1)(p := None)\<rparr>))"

text \<open>
  A connection's view of the table inside its open transaction: the rows and the
  counter. Statements change the view; \<^verbatim>\<open>db.commit()\<close> makes it the table. A request that
  ends without committing leaves the table as it was (the connection is closed).
\<close>

type_synonym table = "document_row list \<times> int"

text \<open>The rowid \<^verbatim>\<open>AUTOINCREMENT\<close> assigns: one more than the largest ever used.\<close>

definition next_rowid :: "table \<Rightarrow> int" where
  "next_rowid t = fold max (map row_id (fst t)) (snd t) + 1"

definition index_insert ::
  "faults \<Rightarrow> string \<Rightarrow> string \<Rightarrow> path \<Rightarrow> nat \<Rightarrow> string \<Rightarrow> world \<Rightarrow> (exn + int \<times> table) \<times> world" where
  "index_insert flt fname oname fpath fsize created w =
     (let w1 = log (IndexInsert fpath) w
      in if insert_fails flt then (Inl OtherException, w1)
         else
           let lastrowid = next_rowid (rows w1, seq w1);
               row = \<lparr>row_id = lastrowid, row_filename = fname, original_name = oname,
                      filepath = fpath, filesize = fsize, created_at = created\<rparr>
           in (Inr (lastrowid, (rows w1 @ [row], lastrowid)), w1))"

definition index_commit :: "faults \<Rightarrow> table \<Rightarrow> world \<Rightarrow> (exn + unit) \<times> world" where
  "index_commit flt t w =
     (let w1 = log IndexCommit w
      in if commit_fails flt then (Inl OtherException, w1)
         else (Inr (), w1\<lparr>rows := fst t, seq := snd t\<rparr>))"

text \<open>\<^verbatim>\<open>SELECT * FROM documents WHERE id = ?\<close> followed by \<^verbatim>\<open>fetchone()\<close>.\<close>

definition index_select :: "faults \<Rightarrow> int \<Rightarrow> world \<Rightarrow> (exn + document_row option) \<times> world" where
  "index_select flt i w =
     (let w1 = log (IndexSelect i) w
      in if select_fails flt then (Inl OtherException, w1)
         else (Inr (find (\<lambda>r. row_id r = i) (rows w1)), w1))"

text \<open>\<^verbatim>\<open>DELETE FROM documents WHERE id = ?\<close>: the row count and the new view.\<close>

definition index_delete :: "faults \<Rightarrow> int \<Rightarrow> world \<Rightarrow> (exn + nat \<times> table) \<times> world" where
  "index_delete flt i w =
     (let w1 = log (IndexDelete i) w
      in if delete_fails flt then (Inl OtherException, w1)
         else (Inr (length (filter (\<lambda>r. row_id r = i) (rows w1)),
                    (filter (\<lambda>r. row_id r \<noteq> i) (rows w1), seq w1)), w1))"

section \<open>Handlers\<close>

text \<open>The \<^verbatim>\<open>document\<close> object of an upload's answer and of each entry of the listing: the
  row's \<^verbatim>\<open>id\<close>, \<^verbatim>\<open>original_name\<close>, \<^verbatim>\<open>filesize\<close> and \<^verbatim>\<open>created_at\<close>.\<close>

record document_info =
  doc_id :: int
  doc_filename :: string
  doc_filesize :: nat
  doc_created_at :: string

definition document_of :: "document_row \<Rightarrow> document_info" where
  "document_of r = \<lparr>doc_id = row_id r, doc_filename = original_name r,
     doc_filesize = filesize r, doc_created_at = created_at r\<rparr>"

text \<open>
  The \<^verbatim>\<open>try\<close> block of \<^verbatim>\<open>upload_document\<close>. Its result carries, beside the value returned
  or the exception raised, the local \<^verbatim>\<open>file_path\<close> if the block has bound it, for the
  handler's \<^verbatim>\<open>'file_path' in locals()\<close>.
\<close>

definition upload_try ::
  "clock \<Rightarrow> faults \<Rightarrow> upload_file \<Rightarrow> world \<Rightarrow> (exn + document_info) \<times> path option \<times> world" where
  "upload_try env flt document w =
     (let (valid, d1) = validate_pdf_file document
      in if \<not> valid then (Inl (HTTPException 400 ''Only PDF files are allowed''), None, w)
      else
        let d2 = seek_end d1;
            file_size = tell d2;
            d3 = seek_start d2
        in if file_size > MAX_FILE_SIZE
           then (Inl (HTTPException 400 ''File size exceeds 10MB limit''), None, w)
        else if file_size = 0
           then (Inl (HTTPException 400 ''Empty file not allowed''), None, w)
        else
          let unique_filename = generate_unique_filename env (filename d3);
              file_path = path_join UPLOAD_DIR unique_filename
          in (case blob_open flt file_path w of
               (Inl e, w1) \<Rightarrow> (Inl e, Some file_path, w1)
             | (Inr u, w1) \<Rightarrow>
                (let (data, d4) = read_all d3
                 in (case blob_write flt file_path data w1 of
                      (Inl e, w2) \<Rightarrow> (Inl e, Some file_path, w2)
                    | (Inr u, w2) \<Rightarrow>
                       (case index_insert flt unique_filename (filename d4) file_path
                               file_size (now_iso env) w2 of
                          (Inl e, w3) \<Rightarrow> (Inl e, Some file_path, w3)
                        | (Inr (lastrowid, t), w3) \<Rightarrow>
                           (case index_commit flt t w3 of
                              (Inl e, w4) \<Rightarrow> (Inl e, Some file_path, w4)
                            | (Inr u, w4) \<Rightarrow>
                               (case index_select flt lastrowid w4 of
                                  (Inl e, w5) \<Rightarrow> (Inl e, Some file_path, w5)
                                | (Inr None, w5) \<Rightarrow>
                                    (Inl (HTTPException 500
                                       ''Failed to retrieve uploaded document''),
                                     Some file_path, w5)
                                | (Inr (Some doc_row), w5) \<Rightarrow>
                                    (Inr (document_of doc_row), Some file_path, w5))))))))"

text \<open>
  \<^verbatim>\<open>upload_document\<close>: an \<^verbatim>\<open>HTTPException\<close> is raised again as it is; any other exception
  unlinks \<^verbatim>\<open>file_path\<close> if it is bound and exists, and becomes a 500. An exception of
  the unlink itself leaves the handler.
\<close>

definition upload_document ::
  "clock \<Rightarrow> faults \<Rightarrow> upload_file \<Rightarrow> world \<Rightarrow> (exn + document_info) \<times> world" where
  "upload_document env flt document w =
     (case upload_try env flt document w of
        (Inr r, locals_file_path, w') \<Rightarrow> (Inr r, w')
      | (Inl (HTTPException c d), locals_file_path, w') \<Rightarrow> (Inl (HTTPException c d), w')
      | (Inl OtherException, locals_file_path, w') \<Rightarrow>
          (case locals_file_path of
             None \<Rightarrow> (Inl (HTTPException 500 ''Internal server error during upload''), w')
           | Some file_path \<Rightarrow>
               if path_exists file_path w'
               then (case blob_unlink flt file_path w' of
                       (Inl e, w'') \<Rightarrow> (Inl e, w'')
                     | (Inr u, w'') \<Rightarrow>
                         (Inl (HTTPException 500 ''Internal server error during upload''), w''))
               else (Inl (HTTPException 500 ''Internal server error during upload''), w')))"

text \<open>
  \<^verbatim>\<open>get_documents\<close>: all rows, \<^verbatim>\<open>ORDER BY created_at DESC\<close> (the column holds ISO text,
  compared byte by byte; SQL leaves the order of equal keys open, here the later row
  comes first).
\<close>

definition get_documents :: "faults \<Rightarrow> world \<Rightarrow> (exn + document_info list) \<times> world" where
  "get_documents flt w =
     (let w1 = log IndexSelectAll w
      in if select_fails flt then (Inl (HTTPException 500 ''Internal server error''), w1)
         else (Inr (map document_of (rev (sort_key created_at (rows w1)))), w1))"

text \<open>\<^verbatim>\<open>FileResponse(path, media_type, filename)\<close>, with the bytes it sends: the content
  of the file at \<open>path\<close>.\<close>

record file_response =
  resp_path :: path
  media_type :: string
  resp_filename :: string
  body :: bytes

definition download_document :: "faults \<Rightarrow> int \<Rightarrow> world \<Rightarrow> (exn + file_response) \<times> world" where
  "download_document flt document_id w =
     (case index_select flt document_id w of
        (Inl e, w1) \<Rightarrow> (Inl (HTTPException 500 ''Internal server error during download''), w1)
      | (Inr None, w1) \<Rightarrow> (Inl (HTTPException 404 ''Document not found''), w1)
      | (Inr (Some doc_row), w1) \<Rightarrow>
         (let file_path = filepath doc_row
          in (case files w1 file_path of
               None \<Rightarrow> (Inl (HTTPException 404 ''File not found on disk''), w1)
             | Some data \<Rightarrow>
                 (Inr \<lparr>resp_path = file_path, media_type = ''application/pdf'',
                       resp_filename = original_name doc_row, body = data\<rparr>, w1))))"

text \<open>
  \<^verbatim>\<open>delete_document\<close>. The handler yields at each \<^verbatim>\<open>await\<close>; \<open>others\<close> is what the other
  requests do to the stores between this handler's \<^verbatim>\<open>SELECT\<close> and its look at the disk
  (the identity when the handler runs alone).
\<close>

definition delete_document ::
  "faults \<Rightarrow> (world \<Rightarrow> world) \<Rightarrow> int \<Rightarrow> world \<Rightarrow> (exn + string) \<times> world" where
  "delete_document flt others document_id w =
     (let fault = HTTPException 500 ''Internal server error during deletion''
      in (case index_select flt document_id w of
           (Inl e, w1) \<Rightarrow> (Inl fault, w1)
         | (Inr None, w1) \<Rightarrow> (Inl (HTTPException 404 ''Document not found''), w1)
         | (Inr (Some doc_row), w1) \<Rightarrow>
            (let w2 = others w1;
                 file_path = filepath doc_row
             in (case (if path_exists file_path w2 then blob_unlink flt file_path w2
                       else (Inr (), w2)) of
                  (Inl e, w3) \<Rightarrow> (Inl fault, w3)
                | (Inr u, w3) \<Rightarrow>
                   (case index_delete flt document_id w3 of
                      (Inl e, w4) \<Rightarrow> (Inl fault, w4)
                    | (Inr (rowcount, t), w4) \<Rightarrow>
                       (case index_commit flt t w4 of
                          (Inl e, w5) \<Rightarrow> (Inl fault, w5)
                        | (Inr u, w5) \<Rightarrow>
                            if rowcount = 0
                            then (Inl (HTTPException 404 ''Document not found''), w5)
                            else (Inr ''Document deleted successfully'', w5)))))))"

section \<open>Runs of requests\<close>

text \<open>The path an upload writes to, and the row it inserts.\<close>

definition upload_path :: "clock \<Rightarrow> upload_file \<Rightarrow> path" where
  "upload_path env d = path_join UPLOAD_DIR (generate_unique_filename env (filename d))"

definition new_row :: "clock \<Rightarrow> upload_file \<Rightarrow> world \<Rightarrow> document_row" where
  "new_row env d w =
     \<lparr>row_id = next_rowid (rows w, seq w),
      row_filename = generate_unique_filename env (filename d),
      original_name = filename d, filepath = upload_path env d,
      filesize = length (content d), created_at = now_iso env\<rparr>"

text \<open>
  A request that changes the stores, with what its environment does to it: the clock
  and the faults of an upload, the faults of a deletion. Requests here run one after
  the other, each to its end.
\<close>

datatype request = Upload clock faults upload_file | Delete faults int

fun step :: "world \<Rightarrow> request \<Rightarrow> world" where
  "step w (Upload env flt d) = snd (upload_document env flt d w)"
| "step w (Delete flt i) = snd (delete_document flt id i w)"

definition run :: "world \<Rightarrow> request list \<Rightarrow> world" where
  "run w rs = foldl step w rs"

text \<open>Every row of the index has a file at its \<open>filepath\<close>.\<close>

definition every_row_has_blob :: "world \<Rightarrow> bool" where
  "every_row_has_blob w \<longleftrightarrow> list_all (\<lambda>r. files w (filepath r) \<noteq> None) (rows w)"

text \<open>No two rows of the index share a \<open>filepath\<close>.\<close>

definition paths_distinct :: "world \<Rightarrow> bool" where
  "paths_distinct w \<longleftrightarrow> distinct (map filepath (rows w))"

text \<open>
  A request is \<open>benign\<close> in a world when an upload's path is not one that a row
  already has and its re-read of the new row does not raise, and when a deletion's
  \<^verbatim>\<open>DELETE\<close> and commit do not raise.
\<close>

fun benign :: "world \<Rightarrow> request \<Rightarrow> bool" where
  "benign w (Upload env flt d) \<longleftrightarrow>
     upload_path env d \<notin> set (map filepath (rows w)) \<and> \<not> select_fails flt"
| "benign w (Delete flt i) \<longleftrightarrow> \<not> delete_fails flt \<and> \<not> commit_fails flt"

fun benign_run :: "world \<Rightarrow> request list \<Rightarrow> bool" where
  "benign_run w [] \<longleftrightarrow> True"
| "benign_run w (r # rs) \<longleftrightarrow> benign w r \<and> benign_run (step w r) rs"

section \<open>Sample inputs\<close>

definition empty_world :: world where
  "empty_world = \<lparr>files = Map.empty, rows = [], seq = 0, trace = []\<rparr>"

definition clock_a :: clock where
  "clock_a = \<lparr>timestamp = 1700000000, random_suffix = 1234,
     now_iso = ''2023-11-14T22:13:20.000001''\<rparr>"

definition clock_b :: clock where
  "clock_b = \<lparr>timestamp = 1700000007, random_suffix = 4321,
     now_iso = ''2023-11-14T22:13:27.500000''\<rparr>"

definition report_v1 :: upload_file where
  "report_v1 = \<lparr>filename = ''Report.PDF'', content = ''%PDF-1.4 first'', pos = 0\<rparr>"

definition report_v2 :: upload_file where
  "report_v2 = \<lparr>filename = ''Report.PDF'', content = ''%PDF-1.7 second'', pos = 0\<rparr>"

definition report_path :: path where
  "report_path = ''server/uploads/1700000000-1234-Report.PDF''"

definition max_pdf :: upload_file where
  "max_pdf = \<lparr>filename = ''scan.pdf'',
     content = ''%PDF'' @ replicate (MAX_FILE_SIZE - 4) (CHR ''x''), pos = 0\<rparr>"

definition oversize_pdf :: upload_file where
  "oversize_pdf = \<lparr>filename = ''scan.pdf'',
     content = ''%PDF'' @ replicate (MAX_FILE_SIZE - 3) (CHR ''x''), pos = 0\<rparr>"

definition empty_pdf :: upload_file where
  "empty_pdf = \<lparr>filename = ''empty.pdf'', content = [], pos = 0\<rparr>"

definition text_file :: upload_file where
  "text_file = \<lparr>filename = ''notes.pdf'', content = ''plain text'', pos = 0\<rparr>"

text \<open>The stores after one accepted upload, and after someone has emptied the upload
  directory behind the service's back.\<close>

definition one_report :: world where
  "one_report = run empty_world [Upload clock_a no_faults report_v1]"

definition tampered :: world where
  "tampered = one_report\<lparr>files := Map.empty\<rparr>"

text \<open>Two uploads of the same file name in the same second that draw the same random
  suffix, then a deletion of the first; and the same with the second upload later.\<close>

definition collision_run :: "request list" where
  "collision_run =
     [Upload clock_a no_faults report_v1, Upload clock_a no_faults report_v2,
      Delete no_faults 1]"

definition sample_run :: "request list" where
  "sample_run =
     [Upload clock_a no_faults report_v1, Upload clock_b no_faults report_v2,
      Delete no_faults 1]"

definition index_down :: faults where
  "index_down = no_faults\<lparr>insert_fails := True\<rparr>"

definition disk_full :: faults where
  "disk_full = no_faults\<lparr>write_fails := Some 5\<rparr>"

text \<open>Another request that deletes document 1 and runs to its end while a deletion of
  the same document waits.\<close>

definition rival_delete :: "world \<Rightarrow> world" where
  "rival_delete w = snd (delete_document no_faults id 1 w)"

section \<open>Properties of the handlers\<close>

subsection \<open>Prefixes, suffixes and the validator\<close>

lemma endswith_iff: "endswith s t \<longleftrightarrow> (\<exists>u. s = u @ t)"
proof
  assume "endswith s t"
  then have "s = take (length s - length t) s @ t"
    by (metis append_take_drop_id endswith_def)
  then show "\<exists>u. s = u @ t" ..
next
  assume "\<exists>u. s = u @ t"
  then show "endswith s t" by (auto simp: endswith_def)
qed

lemma startswith_iff: "startswith s t \<longleftrightarrow> (\<exists>u. s = t @ u)"
proof
  assume "startswith s t"
  then have "s = t @ drop (length t) s"
    by (metis append_take_drop_id startswith_def)
  then show "\<exists>u. s = t @ u" ..
next
  assume "\<exists>u. s = t @ u"
  then show "startswith s t" by (auto simp: startswith_def)
qed

lemma startswith_take: "length t \<le> n \<Longrightarrow> startswith (take n s) t = startswith s t"
  by (simp add: startswith_def min_def)

lemma validate_pdf_file_verdict:
  "fst (validate_pdf_file f) \<longleftrightarrow>
     endswith (lower (filename f)) ''.pdf'' \<and> startswith (content f) ''%PDF''"
  by (simp add: validate_pdf_file_def read_n_def seek_start_def Let_def startswith_take)

lemma validate_pdf_file_stream:
  "snd (validate_pdf_file f) =
     (if endswith (lower (filename f)) ''.pdf'' then f\<lparr>pos := 0\<rparr> else f)"
  by (simp add: validate_pdf_file_def read_n_def seek_start_def Let_def)

lemma lower_char_eq_p: "lower_char c = CHR ''p'' \<longleftrightarrow> c = CHR ''p'' \<or> c = CHR ''P''"
  by (auto simp: lower_char_def split: if_splits)

lemma lower_char_eq_d: "lower_char c = CHR ''d'' \<longleftrightarrow> c = CHR ''d'' \<or> c = CHR ''D''"
  by (auto simp: lower_char_def split: if_splits)

lemma lower_char_eq_f: "lower_char c = CHR ''f'' \<longleftrightarrow> c = CHR ''f'' \<or> c = CHR ''F''"
  by (auto simp: lower_char_def split: if_splits)

lemma lower_char_eq_dot: "lower_char c = CHR ''.'' \<longleftrightarrow> c = CHR ''.''"
  by (auto simp: lower_char_def split: if_splits)

lemma lower_eq_pdf:
  "lower e = ''.pdf'' \<longleftrightarrow>
     (\<exists>p d f. e = [CHR ''.'', p, d, f] \<and> p \<in> {CHR ''p'', CHR ''P''} \<and>
        d \<in> {CHR ''d'', CHR ''D''} \<and> f \<in> {CHR ''f'', CHR ''F''})"
  unfolding lower_def
  by (auto simp: map_eq_Cons_conv lower_char_eq_p lower_char_eq_d lower_char_eq_f lower_char_eq_dot)

lemma endswith_lower_iff:
  "endswith (lower s) ''.pdf'' \<longleftrightarrow> (\<exists>stem e. s = stem @ e \<and> lower e = ''.pdf'')"
proof
  assume "endswith (lower s) ''.pdf''"
  then obtain u where "map lower_char s = u @ ''.pdf''"
    by (auto simp: endswith_iff lower_def)
  then have "\<exists>us vs. s = us @ vs \<and> u = map lower_char us \<and> ''.pdf'' = map lower_char vs"
    by (rule map_eq_append_conv [THEN iffD1])
  then obtain us vs where "s = us @ vs" and "map lower_char vs = ''.pdf''"
    by (elim exE conjE) (rule that, assumption, rule sym)
  then have "s = us @ vs \<and> lower vs = ''.pdf''"
    unfolding lower_def by (rule conjI)
  then show "\<exists>stem e. s = stem @ e \<and> lower e = ''.pdf''"
    by (intro exI)
next
  assume "\<exists>stem e. s = stem @ e \<and> lower e = ''.pdf''"
  then obtain stem e where "s = stem @ e" and "lower e = ''.pdf''" by blast
  then have "lower s = lower stem @ ''.pdf''" by (simp add: lower_def)
  then show "endswith (lower s) ''.pdf''" unfolding endswith_iff ..
qed

lemma valid_length: "fst (validate_pdf_file f) \<Longrightarrow> 4 \<le> length (content f)"
  by (auto simp: validate_pdf_file_verdict startswith_iff)

subsection \<open>The generated name\<close>

text \<open>The two parts \<^verbatim>\<open>splitext\<close> returns make up its argument, so the generated name is the
  time, the random number and the client's file name unchanged.\<close>

lemma splitext_concat: "fst (splitext p) @ snd (splitext p) = p"
  by (simp add: splitext_def Let_def)

lemma generate_unique_filename_eq:
  "generate_unique_filename env name =
     str_nat (timestamp env) @ ''-'' @ str_nat (random_suffix env) @ ''-'' @ name"
  using splitext_concat [of name]
  by (simp add: generate_unique_filename_def split_beta)

subsection \<open>Row identifiers and lookups\<close>

lemma fold_max_ge: "(a::int) \<le> fold max xs a"
  by (induction xs arbitrary: a) (auto intro: order_trans [OF max.cobounded2])

lemma fold_max_mem: "(x::int) \<in> set xs \<Longrightarrow> x \<le> fold max xs a"
proof (induction xs arbitrary: a)
  case Nil
  then show ?case by simp
next
  case (Cons y ys)
  show ?case
  proof (cases "x = y")
    case True
    have "y \<le> max y a" by simp
    also have "\<dots> \<le> fold max ys (max y a)" by (rule fold_max_ge)
    finally show ?thesis using True by simp
  next
    case False
    with Cons show ?thesis by simp
  qed
qed

lemma next_rowid_fresh: "r \<in> set rs \<Longrightarrow> row_id r < next_rowid (rs, s)"
  using fold_max_mem [of "row_id r" "map row_id rs" s] by (simp add: next_rowid_def)

lemma find_append_None: "find P xs = None \<Longrightarrow> find P (xs @ ys) = find P ys"
  by (induction xs) (auto split: if_splits)

lemma find_new_row:
  "row_id r = next_rowid (rs, s) \<Longrightarrow> find (\<lambda>x. row_id x = next_rowid (rs, s)) (rs @ [r]) = Some r"
proof -
  assume r: "row_id r = next_rowid (rs, s)"
  have "\<forall>x\<in>set rs. row_id x \<noteq> next_rowid (rs, s)"
    using next_rowid_fresh [of _ rs s] by fastforce
  then have "find (\<lambda>x. row_id x = next_rowid (rs, s)) rs = None"
    by (simp add: find_None_iff)
  then show ?thesis using r by (simp add: find_append_None)
qed

lemma find_Some_filter: "find P xs = Some x \<Longrightarrow> filter P xs \<noteq> []"
  by (induction xs) (auto split: if_splits)

lemma find_Some_mem: "find P xs = Some x \<Longrightarrow> x \<in> set xs \<and> P x"
  by (induction xs) (auto split: if_splits)

lemma find_None_filter: "find P xs = None \<Longrightarrow> filter P xs = []"
  by (induction xs) (auto split: if_splits)

lemma find_filter_other: "find (\<lambda>r. row_id r = i) (filter (\<lambda>r. row_id r \<noteq> i) xs) = None"
  by (simp add: find_None_iff)

subsection \<open>What an upload does\<close>

lemmas store_defs = blob_open_def blob_write_def blob_unlink_def index_insert_def
  index_commit_def index_select_def index_delete_def log_def path_exists_def

lemmas stream_defs = seek_start_def seek_end_def tell_def read_all_def

lemma upload_invalid:
  "\<not> fst (validate_pdf_file d) \<Longrightarrow>
   upload_document env flt d w = (Inl (HTTPException 400 ''Only PDF files are allowed''), w)"
  by (simp add: upload_document_def upload_try_def split_beta)

lemma upload_oversize:
  "fst (validate_pdf_file d) \<Longrightarrow> MAX_FILE_SIZE < length (content d) \<Longrightarrow>
   upload_document env flt d w = (Inl (HTTPException 400 ''File size exceeds 10MB limit''), w)"
  by (simp add: upload_document_def upload_try_def split_beta validate_pdf_file_stream
      validate_pdf_file_verdict stream_defs)

lemma upload_bad_size:
  assumes "length (content d) = 0 \<or> MAX_FILE_SIZE < length (content d)"
  shows "\<exists>detail. upload_document env flt d w = (Inl (HTTPException 400 detail), w)"
proof (cases "fst (validate_pdf_file d)")
  case False
  then show ?thesis by (simp add: upload_invalid)
next
  case True
  with assms valid_length [OF True] have "MAX_FILE_SIZE < length (content d)" by auto
  with True show ?thesis by (simp add: upload_oversize)
qed

lemma upload_unfold:
  assumes "fst (validate_pdf_file d)" and "length (content d) \<le> MAX_FILE_SIZE"
  shows "upload_try env flt d w =
    (case blob_open flt (upload_path env d) w of
       (Inl e, w1) \<Rightarrow> (Inl e, Some (upload_path env d), w1)
     | (Inr u, w1) \<Rightarrow>
        (case blob_write flt (upload_path env d) (content d) w1 of
           (Inl e, w2) \<Rightarrow> (Inl e, Some (upload_path env d), w2)
         | (Inr u, w2) \<Rightarrow>
            (case index_insert flt (generate_unique_filename env (filename d)) (filename d)
                    (upload_path env d) (length (content d)) (now_iso env) w2 of
               (Inl e, w3) \<Rightarrow> (Inl e, Some (upload_path env d), w3)
             | (Inr (lastrowid, t), w3) \<Rightarrow>
                (case index_commit flt t w3 of
                   (Inl e, w4) \<Rightarrow> (Inl e, Some (upload_path env d), w4)
                 | (Inr u, w4) \<Rightarrow>
                    (case index_select flt lastrowid w4 of
                       (Inl e, w5) \<Rightarrow> (Inl e, Some (upload_path env d), w5)
                     | (Inr None, w5) \<Rightarrow>
                         (Inl (HTTPException 500 ''Failed to retrieve uploaded document''),
                          Some (upload_path env d), w5)
                     | (Inr (Some doc_row), w5) \<Rightarrow>
                         (Inr (document_of doc_row), Some (upload_path env d), w5))))))"
proof -
  have len: "length (content d) \<noteq> 0" using valid_length [OF assms(1)] by auto
  have ext: "endswith (lower (filename d)) ''.pdf''"
    using assms(1) by (simp add: validate_pdf_file_verdict)
  have "validate_pdf_file d = (True, d\<lparr>pos := 0\<rparr>)"
    using assms(1) ext by (simp add: prod_eq_iff validate_pdf_file_stream)
  then show ?thesis
    using assms(2) len
    by (simp add: upload_try_def stream_defs upload_path_def Let_def
        cong: prod.case_cong sum.case_cong option.case_cong)
qed

lemma upload_success:
  assumes "fst (validate_pdf_file d)" and "length (content d) \<le> MAX_FILE_SIZE"
    and "\<not> open_fails flt" and "write_fails flt = None" and "\<not> insert_fails flt"
    and "\<not> commit_fails flt" and "\<not> select_fails flt"
  shows "upload_document env flt d w =
    (Inr (document_of (new_row env d w)),
     w\<lparr>files := (files w)(upload_path env d \<mapsto> content d),
       rows := rows w @ [new_row env d w],
       seq := next_rowid (rows w, seq w),
       trace := trace w @ [BlobOpen (upload_path env d), BlobWrite (upload_path env d),
         IndexInsert (upload_path env d), IndexCommit,
         IndexSelect (next_rowid (rows w, seq w))]\<rparr>)"
proof -
  have len: "length (content d) \<noteq> 0" using valid_length [OF assms(1)] by auto
  have ext: "endswith (lower (filename d)) ''.pdf''"
    using assms(1) by (simp add: validate_pdf_file_verdict)
  have found: "find (\<lambda>x. row_id x = next_rowid (rows w, seq w)) (rows w @ [new_row env d w])
      = Some (new_row env d w)"
    by (rule find_new_row) (simp add: new_row_def)
  show ?thesis
    using assms len ext found
    by (simp add: upload_document_def upload_try_def split_beta validate_pdf_file_stream
        stream_defs store_defs upload_path_def new_row_def Let_def)
qed

lemma upload_rejected:
  assumes "\<not> (fst (validate_pdf_file d) \<and> length (content d) \<le> MAX_FILE_SIZE)"
  shows "snd (upload_document env flt d w) = w"
proof (cases "fst (validate_pdf_file d)")
  case True
  with assms have "MAX_FILE_SIZE < length (content d)" by simp
  with True show ?thesis by (simp add: upload_oversize)
next
  case False
  then show ?thesis by (simp add: upload_invalid)
qed

lemma upload_files_elsewhere:
  assumes "q \<noteq> upload_path env d"
  shows "files (snd (upload_document env flt d w)) q = files w q"
proof (cases "fst (validate_pdf_file d) \<and> length (content d) \<le> MAX_FILE_SIZE")
  case False
  then show ?thesis by (simp add: upload_rejected)
next
  case True
  then show ?thesis
    using assms
    by (auto simp: upload_document_def upload_unfold store_defs Let_def
        split: option.splits if_splits sum.splits exn.splits)
qed

lemma upload_rows:
  "rows (snd (upload_document env flt d w)) = rows w \<or>
   rows (snd (upload_document env flt d w)) = rows w @ [new_row env d w]"
proof (cases "fst (validate_pdf_file d) \<and> length (content d) \<le> MAX_FILE_SIZE")
  case False
  then show ?thesis by (simp add: upload_rejected)
next
  case True
  then show ?thesis
    by (auto simp: upload_document_def upload_unfold store_defs Let_def new_row_def
        split: option.splits if_splits sum.splits exn.splits)
qed

lemma upload_committed_blob:
  assumes "rows (snd (upload_document env flt d w)) \<noteq> rows w" and "\<not> select_fails flt"
  shows "files (snd (upload_document env flt d w)) (upload_path env d) = Some (content d)"
proof (cases "fst (validate_pdf_file d) \<and> length (content d) \<le> MAX_FILE_SIZE")
  case False
  then show ?thesis using assms by (simp add: upload_rejected)
next
  case True
  then show ?thesis
    using assms
    by (auto simp: upload_document_def upload_unfold store_defs Let_def
        split: option.splits if_splits sum.splits exn.splits)
qed

lemma upload_insert_failure:
  assumes "fst (validate_pdf_file d)" and "length (content d) \<le> MAX_FILE_SIZE"
    and "\<not> open_fails flt" and "write_fails flt = None"
    and "insert_fails flt \<or> commit_fails flt"
  shows "upload_document env flt d w =
    (if unlink_fails flt then Inl OtherException
     else Inl (HTTPException 500 ''Internal server error during upload''),
     w\<lparr>files := (if unlink_fails flt then (files w)(upload_path env d \<mapsto> content d)
                  else (files w)(upload_path env d := None)),
       trace := trace w @ [BlobOpen (upload_path env d), BlobWrite (upload_path env d),
         IndexInsert (upload_path env d)] @
         (if insert_fails flt then [] else [IndexCommit]) @
         [BlobUnlink (upload_path env d)]\<rparr>)"
  using assms
  by (auto simp: upload_document_def upload_unfold store_defs Let_def)

lemma upload_write_failure:
  assumes "fst (validate_pdf_file d)" and "length (content d) \<le> MAX_FILE_SIZE"
    and "open_fails flt \<or> write_fails flt \<noteq> None"
  shows "(\<exists>e. fst (upload_document env flt d w) = Inl e \<and> status_code e = 500) \<and>
    rows (snd (upload_document env flt d w)) = rows w \<and>
    seq (snd (upload_document env flt d w)) = seq w \<and>
    (\<exists>evs. trace (snd (upload_document env flt d w)) = trace w @ evs \<and>
       set evs \<subseteq> {BlobOpen (upload_path env d), BlobWrite (upload_path env d),
                   BlobUnlink (upload_path env d)})"
  using assms
  by (auto simp: upload_document_def upload_unfold store_defs Let_def
      split: option.splits)

lemma upload_accepted_not_400:
  assumes "fst (validate_pdf_file d)" and "length (content d) \<le> MAX_FILE_SIZE"
  shows "fst (upload_document env flt d w) \<noteq> Inl (HTTPException 400 detail)"
  using assms
  by (auto simp: upload_document_def upload_unfold store_defs Let_def
      split: option.splits if_splits)

lemma upload_accepted_opens:
  assumes "fst (validate_pdf_file d)" and "length (content d) \<le> MAX_FILE_SIZE"
  shows "\<exists>evs. trace (snd (upload_document env flt d w)) =
           trace w @ BlobOpen (upload_path env d) # evs"
  using assms
  by (auto simp: upload_document_def upload_unfold store_defs Let_def
      split: option.splits if_splits)

lemma upload_never_empty_branch:
  "fst (upload_document env flt d w) \<noteq> Inl (HTTPException 400 ''Empty file not allowed'')"
proof (cases "fst (validate_pdf_file d)")
  case False
  then show ?thesis by (simp add: upload_invalid)
next
  case True
  show ?thesis
  proof (cases "length (content d) \<le> MAX_FILE_SIZE")
    case True
    with \<open>fst (validate_pdf_file d)\<close> show ?thesis by (rule upload_accepted_not_400)
  next
    case False
    with \<open>fst (validate_pdf_file d)\<close> show ?thesis by (simp add: upload_oversize)
  qed
qed

subsection \<open>What a download and a deletion do\<close>

lemma download_found:
  assumes "\<not> select_fails flt" and "find (\<lambda>r. row_id r = i) (rows w) = Some r"
  shows "fst (download_document flt i w) =
    (case files w (filepath r) of
       None \<Rightarrow> Inl (HTTPException 404 ''File not found on disk'')
     | Some data \<Rightarrow> Inr \<lparr>resp_path = filepath r, media_type = ''application/pdf'',
         resp_filename = original_name r, body = data\<rparr>)"
  using assms
  by (simp add: download_document_def store_defs Let_def split: option.splits)

lemma download_not_found:
  assumes "\<not> select_fails flt" and "find (\<lambda>r. row_id r = i) (rows w) = None"
  shows "fst (download_document flt i w) = Inl (HTTPException 404 ''Document not found'')"
  using assms
  by (simp add: download_document_def store_defs Let_def)

lemma delete_not_found:
  assumes "find (\<lambda>r. row_id r = i) (rows w) = None" and "\<not> select_fails flt"
  shows "delete_document flt others i w =
    (Inl (HTTPException 404 ''Document not found''), w\<lparr>trace := trace w @ [IndexSelect i]\<rparr>)"
  using assms by (simp add: delete_document_def store_defs Let_def)

lemma delete_found:
  assumes "find (\<lambda>r. row_id r = i) (rows w) = Some r"
    and "\<not> select_fails flt" and "\<not> unlink_fails flt"
    and "\<not> delete_fails flt" and "\<not> commit_fails flt"
  shows "delete_document flt id i w =
    (Inr ''Document deleted successfully'',
     w\<lparr>files := (files w)(filepath r := None),
       rows := filter (\<lambda>r. row_id r \<noteq> i) (rows w),
       trace := trace w @ [IndexSelect i] @
         (if files w (filepath r) = None then [] else [BlobUnlink (filepath r)]) @
         [IndexDelete i, IndexCommit]\<rparr>)"
  using assms find_Some_filter [OF assms(1)]
  by (auto simp: delete_document_def store_defs Let_def fun_upd_idem)

lemma delete_zero_rows:
  assumes "find (\<lambda>r. row_id r = i) (rows w) = Some r"
    and "\<not> select_fails flt" and "\<not> unlink_fails flt"
    and "\<not> delete_fails flt" and "\<not> commit_fails flt"
    and "find (\<lambda>r. row_id r = i) (rows (others (w\<lparr>trace := trace w @ [IndexSelect i]\<rparr>))) = None"
  shows "fst (delete_document flt others i w) = Inl (HTTPException 404 ''Document not found'')"
  using assms find_None_filter [OF assms(6)]
  by (auto simp: delete_document_def store_defs Let_def)

lemma delete_effect:
  assumes "\<not> delete_fails flt" and "\<not> commit_fails flt"
  shows "(rows (snd (delete_document flt id i w)) = rows w \<and>
          files (snd (delete_document flt id i w)) = files w) \<or>
         (\<exists>r. find (\<lambda>r. row_id r = i) (rows w) = Some r \<and>
            rows (snd (delete_document flt id i w)) = filter (\<lambda>r. row_id r \<noteq> i) (rows w) \<and>
            files (snd (delete_document flt id i w)) = (files w)(filepath r := None))"
  using assms
  by (auto simp: delete_document_def store_defs Let_def split: option.splits)

subsection \<open>Requests that keep the stores consistent\<close>

lemma upload_keeps_consistent:
  assumes inv: "every_row_has_blob w \<and> paths_distinct w"
    and fresh: "upload_path env d \<notin> set (map filepath (rows w))"
    and sel: "\<not> select_fails flt"
  shows "every_row_has_blob (snd (upload_document env flt d w)) \<and>
         paths_distinct (snd (upload_document env flt d w))"
proof -
  let ?w' = "snd (upload_document env flt d w)"
  have old: "files ?w' (filepath r) \<noteq> None" if "r \<in> set (rows w)" for r
  proof -
    from that fresh have "filepath r \<noteq> upload_path env d" by force
    then have "files ?w' (filepath r) = files w (filepath r)"
      by (rule upload_files_elsewhere)
    with inv that show ?thesis by (simp add: every_row_has_blob_def list_all_iff)
  qed
  show ?thesis
  proof (cases "rows ?w' = rows w")
    case True
    with inv old show ?thesis
      by (simp add: every_row_has_blob_def paths_distinct_def list_all_iff)
  next
    case False
    then have rows': "rows ?w' = rows w @ [new_row env d w]"
      using upload_rows [of env flt d w] by blast
    have "files ?w' (upload_path env d) = Some (content d)"
      using False sel by (rule upload_committed_blob)
    then have "files ?w' (filepath (new_row env d w)) \<noteq> None"
      by (simp add: new_row_def)
    with rows' old inv fresh show ?thesis
      by (auto simp: every_row_has_blob_def paths_distinct_def list_all_iff new_row_def)
  qed
qed

lemma delete_keeps_consistent:
  assumes inv: "every_row_has_blob w \<and> paths_distinct w"
    and "\<not> delete_fails flt" and "\<not> commit_fails flt"
  shows "every_row_has_blob (snd (delete_document flt id i w)) \<and>
         paths_distinct (snd (delete_document flt id i w))"
proof -
  let ?w' = "snd (delete_document flt id i w)"
  from delete_effect [OF assms(2,3), of i w]
  consider (same) "rows ?w' = rows w" "files ?w' = files w"
    | (gone) r where "find (\<lambda>r. row_id r = i) (rows w) = Some r"
        "rows ?w' = filter (\<lambda>r. row_id r \<noteq> i) (rows w)"
        "files ?w' = (files w)(filepath r := None)"
    by blast
  then show ?thesis
  proof cases
    case same
    with inv show ?thesis by (simp add: every_row_has_blob_def paths_distinct_def)
  next
    case gone
    from gone(1) have r: "r \<in> set (rows w)" "row_id r = i"
      using find_Some_mem [of "\<lambda>r. row_id r = i" "rows w" r] by auto
    have "filepath x \<noteq> filepath r" if "x \<in> set (rows w)" "row_id x \<noteq> i" for x
    proof
      assume "filepath x = filepath r"
      moreover from inv have "inj_on filepath (set (rows w))"
        by (simp add: paths_distinct_def distinct_map)
      ultimately have "x = r" using that(1) r(1) by (auto dest: inj_onD)
      with that(2) r(2) show False by simp
    qed
    with inv gone show ?thesis
      by (auto simp: every_row_has_blob_def paths_distinct_def list_all_iff distinct_map_filter)
  qed
qed

lemma step_keeps_consistent:
  assumes "every_row_has_blob w \<and> paths_distinct w" and "benign w r"
  shows "every_row_has_blob (step w r) \<and> paths_distinct (step w r)"
proof (cases r)
  case (Upload env flt d)
  with assms show ?thesis using upload_keeps_consistent [of w env d flt] by simp
next
  case (Delete flt i)
  with assms show ?thesis using delete_keeps_consistent [of w flt i] by simp
qed

lemma run_keeps_consistent:
  "every_row_has_blob w \<and> paths_distinct w \<Longrightarrow> benign_run w rs \<Longrightarrow>
   every_row_has_blob (run w rs) \<and> paths_distinct (run w rs)"
proof (induction rs arbitrary: w)
  case Nil
  then show ?case by (simp add: run_def)
next
  case (Cons r rs)
  from Cons.prems have "every_row_has_blob (step w r) \<and> paths_distinct (step w r)"
    by (simp add: step_keeps_consistent)
  moreover from Cons.prems have "benign_run (step w r) rs" by simp
  ultimately have "every_row_has_blob (run (step w r) rs) \<and> paths_distinct (run (step w r) rs)"
    by (rule Cons.IH)
  then show ?case by (simp add: run_def)
qed

subsection \<open>The sample inputs\<close>

lemma no_faults_simps:
  "\<not> open_fails no_faults" "write_fails no_faults = None" "\<not> insert_fails no_faults"
  "\<not> commit_fails no_faults" "\<not> select_fails no_faults" "\<not> unlink_fails no_faults"
  "\<not> delete_fails no_faults"
  by (simp_all add: no_faults_def)

lemma report_v1_valid: "fst (validate_pdf_file report_v1)"
  by (simp add: validate_pdf_file_verdict report_v1_def endswith_def startswith_def
      lower_def lower_char_def)

lemma report_v2_valid: "fst (validate_pdf_file report_v2)"
  by (simp add: validate_pdf_file_verdict report_v2_def endswith_def startswith_def
      lower_def lower_char_def)

lemma report_sizes:
  "length (content report_v1) \<le> MAX_FILE_SIZE" "length (content report_v2) \<le> MAX_FILE_SIZE"
  by (simp_all add: report_v1_def report_v2_def MAX_FILE_SIZE_def)

lemma report_paths:
  "upload_path clock_a report_v1 = report_path" "upload_path clock_a report_v2 = report_path"
  "upload_path clock_b report_v2 = ''server/uploads/1700000007-4321-Report.PDF''"
  by (simp_all add: upload_path_def path_join_def UPLOAD_DIR_def generate_unique_filename_def
      splitext_def rfind_def str_nat.simps digit_char_def clock_a_def clock_b_def
      report_v1_def report_v2_def report_path_def)

lemma max_pdf_valid: "fst (validate_pdf_file max_pdf)"
  by (simp add: validate_pdf_file_verdict max_pdf_def endswith_def startswith_def
      lower_def lower_char_def)

lemma oversize_pdf_valid: "fst (validate_pdf_file oversize_pdf)"
  by (simp add: validate_pdf_file_verdict oversize_pdf_def endswith_def startswith_def
      lower_def lower_char_def)

lemma max_pdf_length: "length (content max_pdf) = MAX_FILE_SIZE"
  by (simp add: max_pdf_def MAX_FILE_SIZE_def)

lemma oversize_pdf_length: "length (content oversize_pdf) = MAX_FILE_SIZE + 1"
  by (simp add: oversize_pdf_def MAX_FILE_SIZE_def)

lemma empty_pdf_length: "length (content empty_pdf) = 0"
  by (simp add: empty_pdf_def)

lemma text_file_invalid: "\<not> fst (validate_pdf_file text_file)"
  by (simp add: validate_pdf_file_verdict text_file_def endswith_def startswith_def
      lower_def lower_char_def)

lemma empty_world_rows: "rows empty_world = []"
  by (simp add: empty_world_def)

lemma first_upload:
  "one_report =
     \<lparr>files = [report_path \<mapsto> content report_v1], rows = [new_row clock_a report_v1 empty_world],
      seq = 1,
      trace = [BlobOpen report_path, BlobWrite report_path, IndexInsert report_path,
        IndexCommit, IndexSelect 1]\<rparr>"
  by (simp add: one_report_def run_def upload_success report_v1_valid report_sizes
      no_faults_simps report_paths empty_world_def next_rowid_def)

lemma first_upload_step:
  "snd (upload_document clock_a no_faults report_v1 empty_world) = one_report"
  by (simp add: one_report_def run_def)

lemma one_report_row:
  "new_row clock_a report_v1 empty_world =
     \<lparr>row_id = 1, row_filename = ''1700000000-1234-Report.PDF'',
      original_name = ''Report.PDF'', filepath = report_path, filesize = 14,
      created_at = ''2023-11-14T22:13:20.000001''\<rparr>"
  using report_paths(1)
  by (simp add: new_row_def empty_world_def next_rowid_def report_v1_def clock_a_def
      upload_path_def path_join_def UPLOAD_DIR_def report_path_def)

lemma one_report_rows: "rows one_report = [new_row clock_a report_v1 empty_world]"
  by (simp add: first_upload)

lemma one_report_find:
  "find (\<lambda>r. row_id r = 1) (rows one_report) = Some (new_row clock_a report_v1 empty_world)"
  by (simp add: one_report_rows one_report_row)

lemma second_upload_collides:
  "upload_document clock_a no_faults report_v2 one_report =
     (Inr (document_of (new_row clock_a report_v2 one_report)),
      one_report\<lparr>files := (files one_report)(report_path \<mapsto> content report_v2),
        rows := rows one_report @ [new_row clock_a report_v2 one_report],
        seq := next_rowid (rows one_report, seq one_report),
        trace := trace one_report @ [BlobOpen report_path, BlobWrite report_path,
          IndexInsert report_path, IndexCommit,
          IndexSelect (next_rowid (rows one_report, seq one_report))]\<rparr>)"
  using upload_success [of report_v2 no_faults clock_a one_report]
  by (simp add: report_v2_valid report_sizes no_faults_simps report_paths)

lemma second_row_id: "row_id (new_row clock_a report_v2 one_report) = 2"
  by (simp add: new_row_def next_rowid_def first_upload empty_world_def)

lemma collision_outcome:
  "rows (run empty_world collision_run) = [new_row clock_a report_v2 one_report] \<and>
   files (run empty_world collision_run) report_path = None"
proof -
  let ?w2 = "snd (upload_document clock_a no_faults report_v2 one_report)"
  have w1: "snd (upload_document clock_a no_faults report_v1 empty_world) = one_report"
    by (simp add: one_report_def run_def)
  have rows2:
    "rows ?w2 = [new_row clock_a report_v1 empty_world, new_row clock_a report_v2 one_report]"
    by (simp add: second_upload_collides one_report_rows)
  have found: "find (\<lambda>r. row_id r = 1) (rows ?w2) = Some (new_row clock_a report_v1 empty_world)"
    by (simp add: rows2 one_report_row)
  have w3: "snd (delete_document no_faults id 1 ?w2) =
      ?w2\<lparr>files := (files ?w2)(report_path := None),
        rows := filter (\<lambda>r. row_id r \<noteq> 1) (rows ?w2),
        trace := trace ?w2 @ [IndexSelect 1] @
          (if files ?w2 report_path = None then [] else [BlobUnlink report_path]) @
          [IndexDelete 1, IndexCommit]\<rparr>"
    using delete_found [OF found, of no_faults]
    by (simp add: no_faults_simps one_report_row)
  have run: "run empty_world collision_run = snd (delete_document no_faults id 1 ?w2)"
    by (simp add: collision_run_def run_def w1)
  show ?thesis
    using second_row_id by (simp add: run w3 rows2 one_report_row)
qed

lemma rival_wins:
  "find (\<lambda>r. row_id r = 1)
     (rows (rival_delete (one_report\<lparr>trace := trace one_report @ [IndexSelect 1]\<rparr>))) = None"
proof -
  let ?w = "one_report\<lparr>trace := trace one_report @ [IndexSelect 1]\<rparr>"
  have "find (\<lambda>r. row_id r = 1) (rows ?w) = Some (new_row clock_a report_v1 empty_world)"
    by (simp add: one_report_find)
  from delete_found [OF this no_faults_simps(5,6,7,4)]
  show ?thesis by (simp add: rival_delete_def find_filter_other)
qed

section \<open>The claims\<close>

subsection \<open>C1: index rows and their blobs\<close>

text \<open>
  C1, as stated, fails. Two accepted uploads of \<^verbatim>\<open>Report.PDF\<close> in the same second draw
  the same suffix, so both rows carry the same \<open>filepath\<close> and the second write replaces
  the first file. Deleting document 1 unlinks that file; row 2 stays and has no blob.
\<close>

theorem orphan_row_after_collision:
  "\<not> every_row_has_blob (run empty_world collision_run)"
  using collision_outcome
  by (simp add: every_row_has_blob_def new_row_def report_paths)

text \<open>
  C1, amended. From stores in which every row has its blob and no two rows share a
  path, every sequence of uploads and deletions, run one after the other, keeps a blob
  on disk for every index row, provided that no upload is given a path that a row
  already has and that the index does not fail once a request has changed the blob
  store (an upload's re-read of the committed row, a deletion's \<^verbatim>\<open>DELETE\<close> and commit).
  Failures of the blob store and of the insert are covered.
\<close>

theorem rows_keep_blobs_on_benign_runs:
  "every_row_has_blob w \<Longrightarrow> paths_distinct w \<Longrightarrow> benign_run w rs \<Longrightarrow>
   every_row_has_blob (run w rs)"
  using run_keeps_consistent [of w rs] by simp

text \<open>C1, amended, on a run from the empty stores: two uploads with different paths
  and the deletion of the first.\<close>

theorem rows_keep_blobs_on_benign_runs_witness:
  "every_row_has_blob empty_world \<and> paths_distinct empty_world \<and>
   benign_run empty_world sample_run \<and> every_row_has_blob (run empty_world sample_run)"
proof -
  have h1: "every_row_has_blob empty_world"
    by (simp add: every_row_has_blob_def empty_world_def)
  have h2: "paths_distinct empty_world"
    by (simp add: paths_distinct_def empty_world_def)
  have h3: "benign_run empty_world sample_run"
    by (simp add: sample_run_def no_faults_simps first_upload_step one_report_rows
        one_report_row report_paths report_path_def empty_world_rows)
  show ?thesis
    by (intro conjI h1 h2 h3 rows_keep_blobs_on_benign_runs [OF h1 h2 h3])
qed

text \<open>
  The two conditions on the index in \<open>benign\<close> are needed. When the re-read after the
  commit raises, the handler unlinks the blob of the row it has committed; when the
  \<^verbatim>\<open>DELETE\<close> raises, the blob is already unlinked and the row stays.
\<close>

lemma reread_fault_leaves_row_without_blob:
  "\<not> every_row_has_blob
       (snd (upload_document clock_a (no_faults\<lparr>select_fails := True\<rparr>) report_v1 empty_world))"
  by (simp add: upload_document_def upload_unfold report_v1_valid report_sizes store_defs
      Let_def no_faults_def every_row_has_blob_def empty_world_def)

lemma delete_fault_leaves_row_without_blob:
  "\<not> every_row_has_blob
       (snd (delete_document (no_faults\<lparr>delete_fails := True\<rparr>) id 1 one_report))"
  by (simp add: delete_document_def store_defs Let_def no_faults_def every_row_has_blob_def
      first_upload one_report_row)

subsection \<open>C2: a failed insert\<close>

text \<open>
  C2. When the blob has been written and the \<^verbatim>\<open>INSERT\<close> or its commit raises, the last
  call \<^verbatim>\<open>upload_document\<close> makes before it reports status 500 is the unlink of the path
  it has just written; unless the unlink itself raises, the file is gone. The table
  is as before, so the listing afterwards is the listing before.
\<close>

theorem insert_failure_unlinks_blob:
  assumes "fst (validate_pdf_file d)" and "length (content d) \<le> MAX_FILE_SIZE"
    and "\<not> open_fails flt" and "write_fails flt = None"
    and "insert_fails flt \<or> commit_fails flt"
  shows "(\<exists>e. fst (upload_document env flt d w) = Inl e \<and> status_code e = 500) \<and>
    trace (snd (upload_document env flt d w)) =
      trace w @ [BlobOpen (upload_path env d), BlobWrite (upload_path env d),
        IndexInsert (upload_path env d)] @
      (if insert_fails flt then [] else [IndexCommit]) @ [BlobUnlink (upload_path env d)] \<and>
    (\<not> unlink_fails flt \<longrightarrow>
       files (snd (upload_document env flt d w)) (upload_path env d) = None) \<and>
    rows (snd (upload_document env flt d w)) = rows w \<and>
    seq (snd (upload_document env flt d w)) = seq w \<and>
    fst (get_documents flt' (snd (upload_document env flt d w))) = fst (get_documents flt' w)"
  by (simp add: upload_insert_failure [OF assms] get_documents_def log_def Let_def)

text \<open>C2 on a second upload whose \<^verbatim>\<open>INSERT\<close> raises.\<close>

theorem insert_failure_unlinks_blob_witness:
  "fst (validate_pdf_file report_v2) \<and> length (content report_v2) \<le> MAX_FILE_SIZE \<and>
   insert_fails index_down \<and>
   (\<exists>e. fst (upload_document clock_b index_down report_v2 one_report) = Inl e \<and>
      status_code e = 500) \<and>
   files (snd (upload_document clock_b index_down report_v2 one_report))
     (upload_path clock_b report_v2) = None \<and>
   rows (snd (upload_document clock_b index_down report_v2 one_report)) = rows one_report \<and>
   fst (get_documents no_faults (snd (upload_document clock_b index_down report_v2 one_report))) =
     fst (get_documents no_faults one_report)"
proof -
  have f: "\<not> open_fails index_down" "write_fails index_down = None"
    "insert_fails index_down \<or> commit_fails index_down"
    by (simp_all add: index_down_def no_faults_def)
  have g: "\<not> unlink_fails index_down" "insert_fails index_down"
    by (simp_all add: index_down_def no_faults_def)
  from insert_failure_unlinks_blob [OF report_v2_valid report_sizes(2) f,
      of clock_b one_report no_faults]
  show ?thesis
    using g report_v2_valid report_sizes(2) by simp
qed

subsection \<open>C3: a failed write\<close>

text \<open>
  C3. When \<^verbatim>\<open>aiofiles.open\<close> or the write raises, \<^verbatim>\<open>upload_document\<close> reports status
  500, the only calls it has made are calls to the blob store (no \<^verbatim>\<open>INSERT\<close>), and the
  table and its counter are as before.
\<close>

theorem write_failure_skips_insert:
  assumes "fst (validate_pdf_file d)" and "length (content d) \<le> MAX_FILE_SIZE"
    and "open_fails flt \<or> write_fails flt \<noteq> None"
  shows "(\<exists>e. fst (upload_document env flt d w) = Inl e \<and> status_code e = 500) \<and>
    rows (snd (upload_document env flt d w)) = rows w \<and>
    seq (snd (upload_document env flt d w)) = seq w \<and>
    (\<exists>evs. trace (snd (upload_document env flt d w)) = trace w @ evs \<and>
       set evs \<subseteq> {BlobOpen (upload_path env d), BlobWrite (upload_path env d),
                   BlobUnlink (upload_path env d)})"
  using assms by (rule upload_write_failure)

text \<open>C3 on an upload whose write raises after five bytes.\<close>

theorem write_failure_skips_insert_witness:
  "fst (validate_pdf_file report_v1) \<and> length (content report_v1) \<le> MAX_FILE_SIZE \<and>
   write_fails disk_full \<noteq> None \<and>
   (\<exists>e. fst (upload_document clock_a disk_full report_v1 empty_world) = Inl e \<and>
      status_code e = 500) \<and>
   rows (snd (upload_document clock_a disk_full report_v1 empty_world)) = [] \<and>
   seq (snd (upload_document clock_a disk_full report_v1 empty_world)) = 0 \<and>
   (\<exists>evs. trace (snd (upload_document clock_a disk_full report_v1 empty_world)) = [] @ evs \<and>
      set evs \<subseteq> {BlobOpen report_path, BlobWrite report_path, BlobUnlink report_path})"
proof -
  have f: "open_fails disk_full \<or> write_fails disk_full \<noteq> None"
    by (simp add: disk_full_def no_faults_def)
  have g: "write_fails disk_full \<noteq> None"
    by (simp add: disk_full_def no_faults_def)
  from write_failure_skips_insert [OF report_v1_valid report_sizes(1) f, of clock_a empty_world]
  show ?thesis
    using g report_v1_valid report_sizes(1)
    by (simp add: report_paths empty_world_def)
qed

subsection \<open>C4: the size check\<close>

text \<open>
  C4. An upload of size zero or of more than \<^verbatim>\<open>MAX_FILE_SIZE\<close> bytes is answered with
  status 400 and leaves the stores and the trace as they were: no call to the blob
  store has been made. A valid file of one byte more than the limit gets the size
  message. A valid file of exactly \<^verbatim>\<open>MAX_FILE_SIZE\<close> bytes is never answered with 400: the
  handler goes on to open the blob, and without faults the upload succeeds.
\<close>

theorem size_check_precedes_write:
  "(length (content d0) = 0 \<or> MAX_FILE_SIZE < length (content d0) \<longrightarrow>
      (\<exists>detail. upload_document env flt d0 w = (Inl (HTTPException 400 detail), w))) \<and>
   (fst (validate_pdf_file d1) \<and> length (content d1) = MAX_FILE_SIZE + 1 \<longrightarrow>
      upload_document env flt d1 w =
        (Inl (HTTPException 400 ''File size exceeds 10MB limit''), w)) \<and>
   (fst (validate_pdf_file d2) \<and> length (content d2) = MAX_FILE_SIZE \<longrightarrow>
      (\<forall>detail. fst (upload_document env flt d2 w) \<noteq> Inl (HTTPException 400 detail)) \<and>
      (\<exists>evs. trace (snd (upload_document env flt d2 w)) =
         trace w @ BlobOpen (upload_path env d2) # evs) \<and>
      fst (upload_document env no_faults d2 w) = Inr (document_of (new_row env d2 w)))"
proof (intro conjI impI allI)
  assume "length (content d0) = 0 \<or> MAX_FILE_SIZE < length (content d0)"
  then show "\<exists>detail. upload_document env flt d0 w = (Inl (HTTPException 400 detail), w)"
    by (rule upload_bad_size)
next
  assume "fst (validate_pdf_file d1) \<and> length (content d1) = MAX_FILE_SIZE + 1"
  then show "upload_document env flt d1 w =
      (Inl (HTTPException 400 ''File size exceeds 10MB limit''), w)"
    by (simp add: upload_oversize)
next
  fix detail
  assume "fst (validate_pdf_file d2) \<and> length (content d2) = MAX_FILE_SIZE"
  then show "fst (upload_document env flt d2 w) \<noteq> Inl (HTTPException 400 detail)"
    by (simp add: upload_accepted_not_400)
next
  assume "fst (validate_pdf_file d2) \<and> length (content d2) = MAX_FILE_SIZE"
  then show "\<exists>evs. trace (snd (upload_document env flt d2 w)) =
      trace w @ BlobOpen (upload_path env d2) # evs"
    by (simp add: upload_accepted_opens)
next
  assume "fst (validate_pdf_file d2) \<and> length (content d2) = MAX_FILE_SIZE"
  then show "fst (upload_document env no_faults d2 w) = Inr (document_of (new_row env d2 w))"
    by (simp add: upload_success no_faults_simps)
qed

text \<open>C4 on an empty file, on a file of 10 MiB plus one byte and on a file of exactly
  10 MiB.\<close>

theorem size_check_precedes_write_witness:
  "length (content empty_pdf) = 0 \<and>
   (\<exists>detail. upload_document clock_a disk_full empty_pdf one_report =
      (Inl (HTTPException 400 detail), one_report)) \<and>
   fst (validate_pdf_file oversize_pdf) \<and> length (content oversize_pdf) = MAX_FILE_SIZE + 1 \<and>
   upload_document clock_a disk_full oversize_pdf one_report =
     (Inl (HTTPException 400 ''File size exceeds 10MB limit''), one_report) \<and>
   fst (validate_pdf_file max_pdf) \<and> length (content max_pdf) = MAX_FILE_SIZE \<and>
   fst (upload_document clock_a no_faults max_pdf one_report) =
     Inr (document_of (new_row clock_a max_pdf one_report))"
  using size_check_precedes_write [of empty_pdf clock_a disk_full one_report oversize_pdf max_pdf]
    empty_pdf_length oversize_pdf_valid oversize_pdf_length max_pdf_valid max_pdf_length
  by simp

subsection \<open>C5: the validator\<close>

text \<open>
  C5. \<^verbatim>\<open>validate_pdf_file\<close> accepts exactly when the file name ends with a dot followed
  by \<^verbatim>\<open>pdf\<close> in either case of each letter and the content begins with the four bytes
  \<^verbatim>\<open>%PDF\<close>. A rejected file is answered with status 400 and nothing is stored. The
  validator changes neither name nor content; a stream that was at offset 0 is
  returned as it was, and after an accepting verdict the offset is 0, so that a full
  read yields the whole content.
\<close>

theorem validator_accepts_pdf_only:
  "(fst (validate_pdf_file f) \<longleftrightarrow>
      (\<exists>stem p d x. filename f = stem @ [CHR ''.'', p, d, x] \<and>
         p \<in> {CHR ''p'', CHR ''P''} \<and> d \<in> {CHR ''d'', CHR ''D''} \<and>
         x \<in> {CHR ''f'', CHR ''F''}) \<and>
      (\<exists>rest. content f = ''%PDF'' @ rest)) \<and>
   (\<not> fst (validate_pdf_file g) \<longrightarrow>
      upload_document env flt g w =
        (Inl (HTTPException 400 ''Only PDF files are allowed''), w)) \<and>
   filename (snd (validate_pdf_file f)) = filename f \<and>
   content (snd (validate_pdf_file f)) = content f \<and>
   (pos f = 0 \<longrightarrow> snd (validate_pdf_file f) = f) \<and>
   (fst (validate_pdf_file f) \<longrightarrow>
      pos (snd (validate_pdf_file f)) = 0 \<and>
      fst (read_all (snd (validate_pdf_file f))) = content f)"
proof -
  have "endswith (lower (filename f)) ''.pdf'' \<longleftrightarrow>
      (\<exists>stem p d x. filename f = stem @ [CHR ''.'', p, d, x] \<and>
         p \<in> {CHR ''p'', CHR ''P''} \<and> d \<in> {CHR ''d'', CHR ''D''} \<and>
         x \<in> {CHR ''f'', CHR ''F''})"
    unfolding endswith_lower_iff lower_eq_pdf by blast
  then have verdict: "fst (validate_pdf_file f) \<longleftrightarrow>
      (\<exists>stem p d x. filename f = stem @ [CHR ''.'', p, d, x] \<and>
         p \<in> {CHR ''p'', CHR ''P''} \<and> d \<in> {CHR ''d'', CHR ''D''} \<and>
         x \<in> {CHR ''f'', CHR ''F''}) \<and>
      (\<exists>rest. content f = ''%PDF'' @ rest)"
    by (simp only: validate_pdf_file_verdict startswith_iff)
  have stream: "filename (snd (validate_pdf_file f)) = filename f"
    "content (snd (validate_pdf_file f)) = content f"
    "pos f = 0 \<longrightarrow> snd (validate_pdf_file f) = f"
    "fst (validate_pdf_file f) \<longrightarrow>
      pos (snd (validate_pdf_file f)) = 0 \<and>
      fst (read_all (snd (validate_pdf_file f))) = content f"
    by (auto simp: validate_pdf_file_stream validate_pdf_file_verdict read_all_def Let_def)
  have reject: "\<not> fst (validate_pdf_file g) \<longrightarrow>
      upload_document env flt g w =
        (Inl (HTTPException 400 ''Only PDF files are allowed''), w)"
    by (simp add: upload_invalid)
  from verdict stream reject show ?thesis by blast
qed

text \<open>C5 on an accepted file named \<^verbatim>\<open>Report.PDF\<close> and on a text file named
  \<^verbatim>\<open>notes.pdf\<close>.\<close>

theorem validator_accepts_pdf_only_witness:
  "fst (validate_pdf_file report_v1) \<and>
   (\<exists>stem p d x. filename report_v1 = stem @ [CHR ''.'', p, d, x] \<and>
      p \<in> {CHR ''p'', CHR ''P''} \<and> d \<in> {CHR ''d'', CHR ''D''} \<and>
      x \<in> {CHR ''f'', CHR ''F''}) \<and>
   (\<exists>rest. content report_v1 = ''%PDF'' @ rest) \<and>
   \<not> fst (validate_pdf_file text_file) \<and>
   upload_document clock_a no_faults text_file one_report =
     (Inl (HTTPException 400 ''Only PDF files are allowed''), one_report) \<and>
   pos report_v1 = 0 \<and> snd (validate_pdf_file report_v1) = report_v1 \<and>
   fst (read_all (snd (validate_pdf_file report_v1))) = content report_v1"
proof -
  have p: "pos report_v1 = 0" by (simp add: report_v1_def)
  from validator_accepts_pdf_only [of report_v1 text_file clock_a no_faults one_report]
  show ?thesis
    using report_v1_valid text_file_invalid p by blast
qed

subsection \<open>C6: upload, then download\<close>

text \<open>
  C6. An accepted upload that meets no fault returns the new row's \<^verbatim>\<open>id\<close> and the
  client's file name; a download of that id from the stores it leaves serves the path
  written, with media type \<^verbatim>\<open>application/pdf\<close>, the client's file name as file name, and
  exactly the uploaded bytes as body.
\<close>

theorem upload_then_download:
  assumes "fst (validate_pdf_file d)" and "length (content d) \<le> MAX_FILE_SIZE"
    and "\<not> open_fails flt" and "write_fails flt = None" and "\<not> insert_fails flt"
    and "\<not> commit_fails flt" and "\<not> select_fails flt" and "\<not> select_fails flt'"
  shows "fst (upload_document env flt d w) = Inr (document_of (new_row env d w)) \<and>
    doc_filename (document_of (new_row env d w)) = filename d \<and>
    fst (download_document flt' (doc_id (document_of (new_row env d w)))
           (snd (upload_document env flt d w))) =
      Inr \<lparr>resp_path = upload_path env d, media_type = ''application/pdf'',
            resp_filename = filename d, body = content d\<rparr>"
proof -
  let ?w' = "snd (upload_document env flt d w)"
  note up = upload_success [OF assms(1-7), of env w]
  have id: "doc_id (document_of (new_row env d w)) = next_rowid (rows w, seq w)"
    by (simp add: document_of_def new_row_def)
  have "find (\<lambda>r. row_id r = next_rowid (rows w, seq w)) (rows ?w') = Some (new_row env d w)"
    using find_new_row [of "new_row env d w" "rows w" "seq w"]
    by (simp add: up new_row_def)
  then have "fst (download_document flt' (next_rowid (rows w, seq w)) ?w') =
      (case files ?w' (filepath (new_row env d w)) of
         None \<Rightarrow> Inl (HTTPException 404 ''File not found on disk'')
       | Some data \<Rightarrow> Inr \<lparr>resp_path = filepath (new_row env d w),
           media_type = ''application/pdf'',
           resp_filename = original_name (new_row env d w), body = data\<rparr>)"
    using assms(8) by (simp add: download_found)
  moreover have "files ?w' (filepath (new_row env d w)) = Some (content d)"
    by (simp add: up new_row_def)
  ultimately show ?thesis
    by (simp add: up id) (simp add: new_row_def document_of_def)
qed

text \<open>C6 on the first upload into the empty stores.\<close>

theorem upload_then_download_witness:
  "fst (validate_pdf_file report_v1) \<and> length (content report_v1) \<le> MAX_FILE_SIZE \<and>
   fst (upload_document clock_a no_faults report_v1 empty_world) =
     Inr (document_of (new_row clock_a report_v1 empty_world)) \<and>
   fst (download_document no_faults (doc_id (document_of (new_row clock_a report_v1 empty_world)))
          (snd (upload_document clock_a no_faults report_v1 empty_world))) =
     Inr \<lparr>resp_path = upload_path clock_a report_v1, media_type = ''application/pdf'',
           resp_filename = filename report_v1, body = content report_v1\<rparr>"
  using upload_then_download [OF report_v1_valid report_sizes(1) no_faults_simps(1-5)
      no_faults_simps(5), of clock_a empty_world]
    report_v1_valid report_sizes(1)
  by blast

subsection \<open>C7: writing to a path in use\<close>

text \<open>
  C7, as stated, fails. The stores hold the first report at \<open>report_path\<close>; a second
  upload that draws the same name succeeds, and the file at that path then holds the
  second report's bytes: the write has replaced the content and raised nothing.
\<close>

theorem write_replaces_existing_blob:
  "files one_report report_path = Some (content report_v1) \<and>
   upload_path clock_a report_v2 = report_path \<and>
   fst (upload_document clock_a no_faults report_v2 one_report) =
     Inr (document_of (new_row clock_a report_v2 one_report)) \<and>
   files (snd (upload_document clock_a no_faults report_v2 one_report)) report_path =
     Some (content report_v2) \<and>
   content report_v2 \<noteq> content report_v1"
  by (simp add: second_upload_collides report_paths)
     (simp add: first_upload report_v1_def report_v2_def)

text \<open>
  C7, amended. When a file already exists at the path an accepted upload writes to
  (\<^verbatim>\<open>aiofiles.open\<close> in mode \<^verbatim>\<open>wb\<close>), the upload succeeds and the file holds the new
  content in place of the old; that paths differ is left to the name generator.
\<close>

theorem write_overwrites_existing_path:
  assumes "files w (upload_path env d) = Some old"
    and "fst (validate_pdf_file d)" and "length (content d) \<le> MAX_FILE_SIZE"
    and "\<not> open_fails flt" and "write_fails flt = None" and "\<not> insert_fails flt"
    and "\<not> commit_fails flt" and "\<not> select_fails flt"
  shows "fst (upload_document env flt d w) = Inr (document_of (new_row env d w)) \<and>
    files (snd (upload_document env flt d w)) (upload_path env d) = Some (content d)"
  by (simp add: upload_success [OF assms(2-8)])

text \<open>C7, amended, on the second report written over the first.\<close>

theorem write_overwrites_existing_path_witness:
  "files one_report (upload_path clock_a report_v2) = Some (content report_v1) \<and>
   fst (validate_pdf_file report_v2) \<and> length (content report_v2) \<le> MAX_FILE_SIZE \<and>
   fst (upload_document clock_a no_faults report_v2 one_report) =
     Inr (document_of (new_row clock_a report_v2 one_report)) \<and>
   files (snd (upload_document clock_a no_faults report_v2 one_report))
     (upload_path clock_a report_v2) = Some (content report_v2)"
proof -
  have h: "files one_report (upload_path clock_a report_v2) = Some (content report_v1)"
    by (simp add: report_paths first_upload)
  from write_overwrites_existing_path [OF h report_v2_valid report_sizes(2) no_faults_simps(1-5)]
  show ?thesis
    using h report_v2_valid report_sizes(2) by blast
qed

subsection \<open>C8: deleting twice\<close>

text \<open>
  C8. For an id that the index holds and calls that do not raise: the first
  \<^verbatim>\<open>delete_document\<close> succeeds, leaves no file at the row's path and no row of that id,
  and has asked the blob store to unlink before it asked the index to delete; the
  second returns 404. A deletion that finds its row but whose \<^verbatim>\<open>DELETE\<close> then affects no
  row, because another request has removed it in between, returns 404 as well.
\<close>

theorem delete_twice:
  assumes "find (\<lambda>r. row_id r = i) (rows w) = Some r"
    and "\<not> select_fails flt" and "\<not> unlink_fails flt"
    and "\<not> delete_fails flt" and "\<not> commit_fails flt"
  shows "fst (delete_document flt id i w) = Inr ''Document deleted successfully'' \<and>
    files (snd (delete_document flt id i w)) (filepath r) = None \<and>
    find (\<lambda>r. row_id r = i) (rows (snd (delete_document flt id i w))) = None \<and>
    trace (snd (delete_document flt id i w)) =
      trace w @ [IndexSelect i] @
      (if files w (filepath r) = None then [] else [BlobUnlink (filepath r)]) @
      [IndexDelete i, IndexCommit] \<and>
    fst (delete_document flt id i (snd (delete_document flt id i w))) =
      Inl (HTTPException 404 ''Document not found'') \<and>
    (find (\<lambda>r. row_id r = i) (rows (others (w\<lparr>trace := trace w @ [IndexSelect i]\<rparr>))) = None
       \<longrightarrow> fst (delete_document flt others i w) =
             Inl (HTTPException 404 ''Document not found''))"
proof -
  note first = delete_found [OF assms]
  have gone: "find (\<lambda>r. row_id r = i) (rows (snd (delete_document flt id i w))) = None"
    by (simp add: first find_filter_other)
  have second: "fst (delete_document flt id i (snd (delete_document flt id i w))) =
      Inl (HTTPException 404 ''Document not found'')"
    using delete_not_found [OF gone assms(2), of id] by simp
  have race: "find (\<lambda>r. row_id r = i) (rows (others (w\<lparr>trace := trace w @ [IndexSelect i]\<rparr>))) = None
      \<longrightarrow> fst (delete_document flt others i w) = Inl (HTTPException 404 ''Document not found'')"
    using delete_zero_rows [OF assms] by blast
  from gone second race show ?thesis
    by (simp add: first)
qed

text \<open>C8 on document 1 of \<open>one_report\<close>, with a rival deletion of the same document as
  the request that runs in between.\<close>

theorem delete_twice_witness:
  "find (\<lambda>r. row_id r = 1) (rows one_report) = Some (new_row clock_a report_v1 empty_world) \<and>
   fst (delete_document no_faults id 1 one_report) = Inr ''Document deleted successfully'' \<and>
   files (snd (delete_document no_faults id 1 one_report))
     (filepath (new_row clock_a report_v1 empty_world)) = None \<and>
   find (\<lambda>r. row_id r = 1) (rows (snd (delete_document no_faults id 1 one_report))) = None \<and>
   fst (delete_document no_faults id 1 (snd (delete_document no_faults id 1 one_report))) =
     Inl (HTTPException 404 ''Document not found'') \<and>
   find (\<lambda>r. row_id r = 1)
     (rows (rival_delete (one_report\<lparr>trace := trace one_report @ [IndexSelect 1]\<rparr>))) = None \<and>
   fst (delete_document no_faults rival_delete 1 one_report) =
     Inl (HTTPException 404 ''Document not found'')"
  using delete_twice [OF one_report_find no_faults_simps(5,6,7,4), of rival_delete]
    one_report_find rival_wins
  by blast

subsection \<open>C9: a row without its blob\<close>

text \<open>
  C9. When the row of an id exists and no file is at its path, \<^verbatim>\<open>download_document\<close>
  raises \<^verbatim>\<open>HTTPException\<close> with status 404, the status it raises for an id that has no
  row (the details read \<^verbatim>\<open>File not found on disk\<close> and \<^verbatim>\<open>Document not found\<close>).
\<close>

theorem missing_blob_is_not_found:
  "(\<not> select_fails flt \<and> find (\<lambda>r. row_id r = i) (rows w) = Some r \<and>
      files w (filepath r) = None \<longrightarrow>
      fst (download_document flt i w) = Inl (HTTPException 404 ''File not found on disk'')) \<and>
   (\<not> select_fails flt \<and> find (\<lambda>r. row_id r = j) (rows w) = None \<longrightarrow>
      fst (download_document flt j w) = Inl (HTTPException 404 ''Document not found'')) \<and>
   status_code (HTTPException 404 ''File not found on disk'') =
     status_code (HTTPException 404 ''Document not found'')"
  by (simp add: download_found download_not_found)

text \<open>C9 on the stores whose upload directory has been emptied, for document 1 and for
  an id never assigned.\<close>

theorem missing_blob_is_not_found_witness:
  "find (\<lambda>r. row_id r = 1) (rows tampered) = Some (new_row clock_a report_v1 empty_world) \<and>
   files tampered (filepath (new_row clock_a report_v1 empty_world)) = None \<and>
   fst (download_document no_faults 1 tampered) =
     Inl (HTTPException 404 ''File not found on disk'') \<and>
   find (\<lambda>r. row_id r = 7) (rows tampered) = None \<and>
   fst (download_document no_faults 7 tampered) = Inl (HTTPException 404 ''Document not found'')"
proof -
  have a: "find (\<lambda>r. row_id r = 1) (rows tampered) = Some (new_row clock_a report_v1 empty_world)"
    by (simp add: tampered_def one_report_find)
  have b: "files tampered (filepath (new_row clock_a report_v1 empty_world)) = None"
    by (simp add: tampered_def)
  have c: "find (\<lambda>r. row_id r = 7) (rows tampered) = None"
    by (simp add: tampered_def one_report_rows one_report_row)
  from missing_blob_is_not_found [of no_faults 1 tampered "new_row clock_a report_v1 empty_world" 7]
  show ?thesis
    using a b c no_faults_simps(5) by blast
qed

subsection \<open>C10: the empty file\<close>

text \<open>
  C10. A file of no bytes fails \<^verbatim>\<open>validate_pdf_file\<close> and is answered with the file-type
  message; and no upload at all, whatever the file, the clock, the faults and the
  stores, is answered with \<^verbatim>\<open>Empty file not allowed\<close>.
\<close>

theorem empty_file_branch_unreachable:
  "(content d = [] \<longrightarrow>
      \<not> fst (validate_pdf_file d) \<and>
      upload_document env flt d w =
        (Inl (HTTPException 400 ''Only PDF files are allowed''), w)) \<and>
   fst (upload_document env' flt' d' w') \<noteq> Inl (HTTPException 400 ''Empty file not allowed'')"
proof -
  have "\<not> fst (validate_pdf_file d)" if "content d = []"
    using that valid_length [of d] by auto
  then show ?thesis
    by (simp add: upload_invalid upload_never_empty_branch)
qed

text \<open>C10 on the empty file.\<close>

theorem empty_file_branch_unreachable_witness:
  "content empty_pdf = [] \<and> \<not> fst (validate_pdf_file empty_pdf) \<and>
   upload_document clock_a no_faults empty_pdf one_report =
     (Inl (HTTPException 400 ''Only PDF files are allowed''), one_report) \<and>
   fst (upload_document clock_a no_faults empty_pdf one_report) \<noteq>
     Inl (HTTPException 400 ''Empty file not allowed'')"
proof -
  have e: "content empty_pdf = []" by (simp add: empty_pdf_def)
  from empty_file_branch_unreachable [of empty_pdf clock_a no_faults one_report
      clock_a no_faults empty_pdf one_report]
  show ?thesis using e by blast
qed

end
